theory Spec2Isabelle
  imports Complex_Main "HOL-Library.Char_ord" "HOL-Library.List_Lexorder"
begin

section \<open>Python values, exceptions and the two coercions of \<open>predict_fraud\<close>\<close>

text \<open>
  \<open>Panel.py\<close> is dynamically typed: the claim amount handed to \<open>predict_fraud\<close> and the
  \<open>age\<close> and \<open>previous_claims\<close> cells read back from SQLite may be \<open>None\<close>, an \<open>int\<close>, a
  \<open>float\<close> or a \<open>str\<close> (SQLite columns are not strictly typed; \<open>bytes\<close> cells are left out).
  A Python \<open>float\<close> is modelled by the real number it denotes: the rounding of the at most
  four additions of the rule block, infinities and NaN are outside the model.
\<close>

datatype pyval = PyNone | PyInt int | PyFloat real | PyStr string

text \<open>
  A raised exception is the \<open>Inl\<close> branch of a sum. \<open>OperationalError\<close> is the
  \<open>sqlite3\<close> exception of a statement that cannot be executed.
\<close>

datatype pyerror =
  TypeError | ValueError | KeyError | IndexError | OverflowError | OperationalError

text \<open>
  Everything \<open>predict_fraud\<close> uses and that is not code of the repository: Python's parsing
  of a \<open>str\<close> by \<open>float(...)\<close> and \<open>int(...)\<close> (\<open>None\<close> where Python raises
  \<open>ValueError\<close>), the pickled classifier (\<open>model.predict_proba(x)[0][1]\<close>, which may
  raise) and the pickled dictionary of fitted \<open>LabelEncoder\<close>s, each a finite mapping
  from the labels seen in training to their codes.
\<close>

record features =
  ClaimAmount :: real
  Age :: int
  Diagnosis :: nat
  HospitalType :: nat
  PreviousClaims :: int

record env =
  str_to_float :: "string \<Rightarrow> real option"
  str_to_int :: "string \<Rightarrow> int option"
  predict_proba :: "features \<Rightarrow> pyerror + real"
  label_encoders :: "string \<Rightarrow> (string \<Rightarrow> nat option) option"

text \<open>
  \<open>float(x)\<close>. An \<open>int\<close> is converted by rounding to the nearest double, and Python
  raises \<open>OverflowError\<close> when that is beyond the largest one, which is the case from
  \<open>2^1024 - 2^970\<close> on (half-way between the largest double and \<open>2^1024\<close>); for
  instance \<open>float(10**400)\<close>. Below that bound the model takes the integer itself.
\<close>

definition py_float :: "env \<Rightarrow> pyval \<Rightarrow> pyerror + real" where
  "py_float e v =
     (case v of
        PyNone \<Rightarrow> Inl TypeError
      | PyInt i \<Rightarrow>
          if \<bar>i\<bar> < 2 ^ 1024 - 2 ^ 970 then Inr (real_of_int i) else Inl OverflowError
      | PyFloat x \<Rightarrow> Inr x
      | PyStr s \<Rightarrow> (case str_to_float e s of None \<Rightarrow> Inl ValueError | Some x \<Rightarrow> Inr x))"

text \<open>\<open>int(x)\<close> of a float truncates towards zero.\<close>

definition py_int :: "env \<Rightarrow> pyval \<Rightarrow> pyerror + int" where
  "py_int e v =
     (case v of
        PyNone \<Rightarrow> Inl TypeError
      | PyInt i \<Rightarrow> Inr i
      | PyFloat x \<Rightarrow> Inr (if 0 \<le> x then \<lfloor>x\<rfloor> else \<lceil>x\<rceil>)
      | PyStr s \<Rightarrow> (case str_to_int e s of None \<Rightarrow> Inl ValueError | Some i \<Rightarrow> Inr i))"

text \<open>
  \<open>str.lower()\<close>, on the bytes of the UTF-8 encoding: the ASCII capitals are mapped to
  their small letters and every other byte is kept. The rules compare the result with
  \<open>cancer\<close>, \<open>heart disease\<close> and \<open>private\<close> only, and no character outside ASCII has a
  lower case spelled with the letters of these three words, so the comparisons come out
  as in Python.
\<close>

definition lower_char :: "char \<Rightarrow> char" where
  "lower_char c =
     (if CHR ''A'' \<le> c \<and> c \<le> CHR ''Z'' then char_of (of_char c + (32::nat)) else c)"

definition lower :: "string \<Rightarrow> string" where
  "lower s = map lower_char s"

section \<open>The SQLite database\<close>

text \<open>
  The tables \<open>customer_data\<close> and \<open>predictions\<close> as lists of rows in insertion order
  (the \<open>id\<close> and \<open>timestamp\<close> columns, filled in by SQLite, are left out).
  \<open>accepts_writes\<close> is the state of the connection: when it is false (the file is
  read-only or locked, the disk is full) an \<open>INSERT\<close> raises \<open>OperationalError\<close>.
\<close>

record customer_row =
  cd_user_id :: int
  cd_customer_id :: string
  cd_date :: string
  cd_age :: pyval
  cd_name :: string
  cd_diagnosis :: string
  cd_hospital_type :: string
  cd_previous_claims :: pyval
  cd_claim_amount :: pyval

record prediction_row =
  pr_user_id :: int
  pr_customer_id :: string
  pr_name :: string
  pr_claim_amount :: pyval
  pr_age :: pyval
  pr_diagnosis :: string
  pr_hospital_type :: string
  pr_previous_claims :: pyval
  pr_prediction :: string
  pr_probability :: real

record database =
  customer_data :: "customer_row list"
  predictions :: "prediction_row list"
  accepts_writes :: bool

text \<open>
  \<open>ORDER BY date DESC LIMIT 1\<close>: a row whose \<open>date\<close> text is greatest (bytewise, as
  SQLite compares \<open>TEXT\<close>). SQL leaves the choice among rows of equal date open; the
  model takes the one inserted first.
\<close>

fun latest :: "customer_row list \<Rightarrow> customer_row option" where
  "latest [] = None"
| "latest (r # rs) =
     (case latest rs of
        None \<Rightarrow> Some r
      | Some r' \<Rightarrow> if cd_date r < cd_date r' then Some r' else Some r)"

text \<open>
  The \<open>SELECT age, previous_claims ... WHERE user_id=? AND customer_id=? AND name=?\<close>
  followed by \<open>cursor.fetchone()\<close>.
\<close>

definition fetch_profile :: "database \<Rightarrow> int \<Rightarrow> string \<Rightarrow> string \<Rightarrow> (pyval \<times> pyval) option" where
  "fetch_profile db user_id customer_id name =
     (case latest (filter (\<lambda>r. cd_user_id r = user_id \<and> cd_customer_id r = customer_id
                                \<and> cd_name r = name) (customer_data db)) of
        None \<Rightarrow> None
      | Some r \<Rightarrow> Some (cd_age r, cd_previous_claims r))"

text \<open>
  \<open>sqlite3\<close> binds a Python \<open>int\<close> as a 64-bit integer and raises \<open>OverflowError\<close>
  for one that does not fit.
\<close>

definition sqlite_bindable :: "pyval \<Rightarrow> bool" where
  "sqlite_bindable v =
     (case v of PyInt i \<Rightarrow> - (2 ^ 63) \<le> i \<and> i < 2 ^ 63 | _ \<Rightarrow> True)"

text \<open>The \<open>INSERT INTO predictions\<close> and the \<open>conn.commit()\<close> after it.\<close>

definition store_prediction :: "database \<Rightarrow> prediction_row \<Rightarrow> pyerror + database" where
  "store_prediction db row =
     (if \<not> (sqlite_bindable (pr_claim_amount row) \<and> sqlite_bindable (pr_age row)
            \<and> sqlite_bindable (pr_previous_claims row))
      then Inl OverflowError
      else if \<not> accepts_writes db then Inl OperationalError
      else Inr (db\<lparr>predictions := predictions db @ [row]\<rparr>))"

section \<open>Scoring\<close>

text \<open>
  \<open>preprocess_input\<close>: each \<open>label_encoders[col].transform([label])[0]\<close> stands in a
  \<open>try\<close> with a bare \<open>except\<close>, so a missing dictionary key and an unseen label both
  give the code 0.
\<close>

definition transform :: "env \<Rightarrow> string \<Rightarrow> string \<Rightarrow> pyerror + nat" where
  "transform e col label =
     (case label_encoders e col of
        None \<Rightarrow> Inl KeyError
      | Some enc \<Rightarrow> (case enc label of None \<Rightarrow> Inl ValueError | Some code \<Rightarrow> Inr code))"

definition preprocess_input :: "env \<Rightarrow> real \<Rightarrow> int \<Rightarrow> string \<Rightarrow> string \<Rightarrow> int \<Rightarrow> features" where
  "preprocess_input e claim_amount age diagnosis hospital_type previous_claims =
     (let diagnosis_encoded =
            (case transform e ''Diagnosis'' diagnosis of Inr code \<Rightarrow> code | Inl _ \<Rightarrow> 0);
          hospital_type_encoded =
            (case transform e ''HospitalType'' hospital_type of Inr code \<Rightarrow> code | Inl _ \<Rightarrow> 0)
      in \<lparr>ClaimAmount = claim_amount, Age = age, Diagnosis = diagnosis_encoded,
          HospitalType = hospital_type_encoded, PreviousClaims = previous_claims\<rparr>)"

text \<open>\<open># Get base prediction\<close>: any exception of the classifier gives 0.0.\<close>

definition base_prediction :: "env \<Rightarrow> features \<Rightarrow> real" where
  "base_prediction e input_data =
     (case predict_proba e input_data of Inr p \<Rightarrow> p | Inl _ \<Rightarrow> 0)"

text \<open>The \<open>rules\<close> dictionary of \<open>predict_fraud\<close>.\<close>

definition high_amount_threshold :: real where
  "high_amount_threshold = 300000"

definition high_amount_adjustment :: real where
  "high_amount_adjustment = 10 / 100"

definition frequent_claims_threshold :: int where
  "frequent_claims_threshold = 5"

definition frequent_claims_adjustment :: real where
  "frequent_claims_adjustment = 15 / 100"

definition suspicious_diagnosis_list :: "string list" where
  "suspicious_diagnosis_list = [''cancer'', ''heart disease'']"

definition suspicious_diagnosis_adjustment :: real where
  "suspicious_diagnosis_adjustment = 20 / 100"

definition private_hospital_adjustment :: real where
  "private_hospital_adjustment = 10 / 100"

text \<open>\<open># Apply business rules\<close>: four \<open>if\<close> statements, each adding to \<open>prediction_prob\<close>.\<close>

definition apply_business_rules :: "real \<Rightarrow> real \<Rightarrow> int \<Rightarrow> string \<Rightarrow> string \<Rightarrow> real" where
  "apply_business_rules prediction_prob claim_amount previous_claims diagnosis hospital_type =
     (let p1 = (if claim_amount > high_amount_threshold
                then prediction_prob + high_amount_adjustment else prediction_prob);
          p2 = (if previous_claims > frequent_claims_threshold
                then p1 + frequent_claims_adjustment else p1);
          p3 = (if lower diagnosis \<in> set suspicious_diagnosis_list
                then p2 + suspicious_diagnosis_adjustment else p2);
          p4 = (if lower hospital_type = ''private''
                then p3 + private_hospital_adjustment else p3)
      in p4)"

text \<open>\<open># Cap probability between 0-1\<close> and \<open># Determine result\<close>.\<close>

definition cap_probability :: "real \<Rightarrow> real" where
  "cap_probability p = max 0 (min 1 p)"

definition determine_result :: "real \<Rightarrow> string" where
  "determine_result p = (if p > 35 / 100 then ''Fraud'' else ''Legitimate'')"

text \<open>
  \<open>predict_fraud\<close>. It returns the pair \<open>(result, probability)\<close> together with the
  database after the call, or the exception it raises together with the database as the
  call leaves it: the coercions raise before anything is written, and a failed \<open>INSERT\<close>
  writes no row. A missing profile is a normal
  return of the pair \<open>("Error: Customer profile not found", 0.0)\<close>. The arguments of
  \<open>preprocess_input\<close> are evaluated in the order written (\<open>float(claim_amount)\<close>,
  \<open>int(age)\<close>, \<open>int(previous_claims)\<close>); the rule block calls \<open>float(claim_amount)\<close> and
  \<open>int(previous_claims)\<close> again, with the same values.
\<close>

definition predict_fraud ::
  "env \<Rightarrow> database \<Rightarrow> int \<Rightarrow> string \<Rightarrow> string \<Rightarrow> string \<Rightarrow> string \<Rightarrow> pyval
     \<Rightarrow> (pyerror \<times> database) + ((string \<times> real) \<times> database)" where
  "predict_fraud e db user_id customer_id name diagnosis hospital_type claim_amount =
     (case fetch_profile db user_id customer_id name of
        None \<Rightarrow> Inr ((''Error: Customer profile not found'', 0), db)
      | Some (age, previous_claims) \<Rightarrow>
          (case py_float e claim_amount of
             Inl err \<Rightarrow> Inl (err, db)
           | Inr amount \<Rightarrow>
          (case py_int e age of
             Inl err \<Rightarrow> Inl (err, db)
           | Inr age_i \<Rightarrow>
          (case py_int e previous_claims of
             Inl err \<Rightarrow> Inl (err, db)
           | Inr claims \<Rightarrow>
              (let input_data = preprocess_input e amount age_i diagnosis hospital_type claims;
                   prediction_prob = base_prediction e input_data;
                   prediction_prob =
                     apply_business_rules prediction_prob amount claims diagnosis hospital_type;
                   prediction_prob = cap_probability prediction_prob;
                   result = determine_result prediction_prob
               in (case store_prediction db
                          \<lparr>pr_user_id = user_id, pr_customer_id = customer_id, pr_name = name,
                           pr_claim_amount = claim_amount, pr_age = age,
                           pr_diagnosis = diagnosis, pr_hospital_type = hospital_type,
                           pr_previous_claims = previous_claims, pr_prediction = result,
                           pr_probability = prediction_prob\<rparr> of
                     Inl err \<Rightarrow> Inl (err, db)
                   | Inr db' \<Rightarrow> Inr ((result, prediction_prob), db')))))))"

text \<open>
  What the caller of \<open>predict_fraud\<close> sees: the returned pair, or the exception.
\<close>

definition outcome ::
  "(pyerror \<times> database) + ((string \<times> real) \<times> database) \<Rightarrow> pyerror + (string \<times> real)" where
  "outcome res = (case res of Inl (err, db') \<Rightarrow> Inl err | Inr (ret, db') \<Rightarrow> Inr ret)"

section \<open>Fixtures\<close>

text \<open>
  A concrete environment and database for the examples: Python's parsing restricted to
  two numerals (every other string is rejected, as \<open>abc\<close> is by Python), encoders
  fitted on two labels each (a \<open>LabelEncoder\<close> numbers its sorted labels from 0), a
  classifier that answers with a given probability whatever the features and one whose
  call raises, and a history store with two records of one customer.
\<close>

definition example_str_to_float :: "string \<Rightarrow> real option" where
  "example_str_to_float = [''350000'' \<mapsto> 350000, ''5000'' \<mapsto> 5000]"

definition example_str_to_int :: "string \<Rightarrow> int option" where
  "example_str_to_int = [''6'' \<mapsto> 6, ''1'' \<mapsto> 1]"

definition example_encoders :: "string \<Rightarrow> (string \<Rightarrow> nat option) option" where
  "example_encoders =
     [''Diagnosis'' \<mapsto> [''Cancer'' \<mapsto> 0, ''Flu'' \<mapsto> 1],
      ''HospitalType'' \<mapsto> [''Government'' \<mapsto> 0, ''Private'' \<mapsto> 1]]"

definition example_env :: "real \<Rightarrow> env" where
  "example_env p =
     \<lparr>str_to_float = example_str_to_float, str_to_int = example_str_to_int,
      predict_proba = (\<lambda>_. Inr p), label_encoders = example_encoders\<rparr>"

definition failing_model_env :: env where
  "failing_model_env =
     \<lparr>str_to_float = example_str_to_float, str_to_int = example_str_to_int,
      predict_proba = (\<lambda>_. Inl ValueError), label_encoders = example_encoders\<rparr>"

definition example_customer :: "string \<Rightarrow> pyval \<Rightarrow> customer_row" where
  "example_customer date previous_claims =
     \<lparr>cd_user_id = 1, cd_customer_id = ''C001'', cd_date = date, cd_age = PyInt 45,
      cd_name = ''Asha'', cd_diagnosis = ''Flu'', cd_hospital_type = ''Government'',
      cd_previous_claims = previous_claims, cd_claim_amount = PyFloat 5000\<rparr>"

definition example_db :: "pyval \<Rightarrow> bool \<Rightarrow> database" where
  "example_db previous_claims writable =
     \<lparr>customer_data = [example_customer ''2023-11-02'' (PyInt 0),
                       example_customer ''2024-03-15'' previous_claims],
      predictions = [], accepts_writes = writable\<rparr>"

definition example_prediction ::
  "string \<Rightarrow> string \<Rightarrow> pyval \<Rightarrow> pyval \<Rightarrow> string \<Rightarrow> real \<Rightarrow> prediction_row" where
  "example_prediction diagnosis hospital_type claim_amount previous_claims result p =
     \<lparr>pr_user_id = 1, pr_customer_id = ''C001'', pr_name = ''Asha'',
      pr_claim_amount = claim_amount, pr_age = PyInt 45, pr_diagnosis = diagnosis,
      pr_hospital_type = hospital_type, pr_previous_claims = previous_claims,
      pr_prediction = result, pr_probability = p\<rparr>"

section \<open>Facts about the steps of \<open>predict_fraud\<close>\<close>

lemma latest_eq_None: "latest rs = None \<longleftrightarrow> rs = []"
  by (cases rs) (auto split: option.splits)

lemma fetch_profile_eq_None:
  "fetch_profile db u c n = None \<longleftrightarrow>
     filter (\<lambda>r. cd_user_id r = u \<and> cd_customer_id r = c \<and> cd_name r = n) (customer_data db) = []"
  using latest_eq_None [of "filter (\<lambda>r. cd_user_id r = u \<and> cd_customer_id r = c \<and> cd_name r = n)
      (customer_data db)"]
  by (auto simp: fetch_profile_def split: option.splits)

lemma fetch_profile_frame:
  "customer_data db' = customer_data db \<Longrightarrow> fetch_profile db' u c n = fetch_profile db u c n"
  by (simp add: fetch_profile_def)

lemma predict_fraud_not_found:
  "fetch_profile db u c n = None \<Longrightarrow>
   predict_fraud e db u c n d h a = Inr ((''Error: Customer profile not found'', 0), db)"
  by (simp add: predict_fraud_def)

lemma predict_fraud_found:
  assumes "fetch_profile db u c n = Some (age, pc)"
    and "py_float e a = Inr x" and "py_int e age = Inr g" and "py_int e pc = Inr k"
  shows "predict_fraud e db u c n d h a =
     (case store_prediction db
             \<lparr>pr_user_id = u, pr_customer_id = c, pr_name = n, pr_claim_amount = a,
              pr_age = age, pr_diagnosis = d, pr_hospital_type = h, pr_previous_claims = pc,
              pr_prediction =
                determine_result (cap_probability (apply_business_rules
                  (base_prediction e (preprocess_input e x g d h k)) x k d h)),
              pr_probability =
                cap_probability (apply_business_rules
                  (base_prediction e (preprocess_input e x g d h k)) x k d h)\<rparr> of
        Inl err \<Rightarrow> Inl (err, db)
      | Inr db' \<Rightarrow>
          Inr ((determine_result (cap_probability (apply_business_rules
                  (base_prediction e (preprocess_input e x g d h k)) x k d h)),
                cap_probability (apply_business_rules
                  (base_prediction e (preprocess_input e x g d h k)) x k d h)), db'))"
  using assms by (simp add: predict_fraud_def Let_def)

lemma store_prediction_Inr:
  "store_prediction db row = Inr db' \<Longrightarrow>
     db' = db\<lparr>predictions := predictions db @ [row]\<rparr> \<and> accepts_writes db"
  by (auto simp: store_prediction_def split: if_splits)

lemma predict_fraud_returns:
  assumes "predict_fraud e db u c n d h a = Inr ((r, p), db')"
    and "fetch_profile db u c n = Some (age, pc)"
  obtains x g k where "py_float e a = Inr x" and "py_int e age = Inr g" and "py_int e pc = Inr k"
    and "p = cap_probability (apply_business_rules
                  (base_prediction e (preprocess_input e x g d h k)) x k d h)"
    and "r = determine_result p"
    and "db' = db\<lparr>predictions := predictions db @
             [\<lparr>pr_user_id = u, pr_customer_id = c, pr_name = n, pr_claim_amount = a,
              pr_age = age, pr_diagnosis = d, pr_hospital_type = h, pr_previous_claims = pc,
              pr_prediction = r, pr_probability = p\<rparr>]\<rparr>"
    and "accepts_writes db"
proof -
  from assms obtain x where x: "py_float e a = Inr x"
    by (cases "py_float e a") (auto simp: predict_fraud_def)
  from assms x obtain g where g: "py_int e age = Inr g"
    by (cases "py_int e age") (auto simp: predict_fraud_def)
  from assms x g obtain k where k: "py_int e pc = Inr k"
    by (cases "py_int e pc") (auto simp: predict_fraud_def)
  show thesis
    using assms(1) predict_fraud_found [OF assms(2) x g k, of d h] that [OF x g k]
    by (auto split: sum.splits dest!: store_prediction_Inr)
qed

lemma cap_probability_bounds: "0 \<le> cap_probability p \<and> cap_probability p \<le> 1"
  by (simp add: cap_probability_def)

lemma apply_business_rules_ge: "p \<le> apply_business_rules p x k d h"
  by (simp add: apply_business_rules_def Let_def high_amount_adjustment_def
      frequent_claims_adjustment_def suspicious_diagnosis_adjustment_def
      private_hospital_adjustment_def)

lemma apply_business_rules_all:
  "x > high_amount_threshold \<Longrightarrow> k > frequent_claims_threshold \<Longrightarrow>
   lower d \<in> set suspicious_diagnosis_list \<Longrightarrow> lower h = ''private'' \<Longrightarrow>
   apply_business_rules p x k d h = p + 55 / 100"
  by (simp add: apply_business_rules_def Let_def high_amount_adjustment_def
      frequent_claims_adjustment_def suspicious_diagnosis_adjustment_def
      private_hospital_adjustment_def)

lemma example_profile:
  "fetch_profile (example_db pc w) 1 ''C001'' ''Asha'' = Some (PyInt 45, pc)"
  by (simp add: fetch_profile_def example_db_def example_customer_def)

lemma predict_fraud_stored:
  assumes "fetch_profile db u c n = Some (age, pc)"
    and "py_float e a = Inr x" and "py_int e age = Inr g" and "py_int e pc = Inr k"
    and "sqlite_bindable a" and "sqlite_bindable age" and "sqlite_bindable pc"
    and "accepts_writes db"
    and "p = cap_probability (apply_business_rules
              (base_prediction e (preprocess_input e x g d h k)) x k d h)"
    and "r = determine_result p"
  shows "predict_fraud e db u c n d h a =
     Inr ((r, p), db\<lparr>predictions := predictions db @
        [\<lparr>pr_user_id = u, pr_customer_id = c, pr_name = n, pr_claim_amount = a,
          pr_age = age, pr_diagnosis = d, pr_hospital_type = h, pr_previous_claims = pc,
          pr_prediction = r, pr_probability = p\<rparr>]\<rparr>)"
  using assms(5-10) by (simp add: predict_fraud_found [OF assms(1-4)] store_prediction_def)

lemma determine_result_cases: "determine_result p = ''Fraud'' \<or> determine_result p = ''Legitimate''"
  by (simp add: determine_result_def)

lemma example_coercions:
  "py_float (example_env q) (PyInt 350000) = Inr 350000"
  "py_float (example_env q) (PyFloat 5000) = Inr 5000"
  "py_int (example_env q) (PyInt 45) = Inr 45"
  "py_int (example_env q) (PyInt 6) = Inr 6"
  "py_int (example_env q) (PyInt 1) = Inr 1"
  by (simp_all add: py_float_def py_int_def)

section \<open>The worked example of the rule engine\<close>

text \<open>
  C1, as the code has it. With a claim amount of 350000, 6 previous claims, the diagnosis
  \<open>Cancer\<close>, the hospital type \<open>Private\<close> and a base probability of 0.05 all four
  rules fire; their adjustments add up to 0.55 (0.10 + 0.15 + 0.20 + 0.10), so the call
  returns the verdict \<open>Fraud\<close> with probability 0.60. The claim's total of 0.60 and
  probability of 0.65 are an addition slip of the specification.
\<close>

theorem example_adds_055:
  assumes "fetch_profile db u c n = Some (age, pc)"
    and "py_float e a = Inr 350000" and "py_int e age = Inr g" and "py_int e pc = Inr 6"
    and "predict_proba e (preprocess_input e 350000 g ''Cancer'' ''Private'' 6) = Inr (5 / 100)"
    and "sqlite_bindable a" and "sqlite_bindable age" and "sqlite_bindable pc"
    and "accepts_writes db"
  shows "high_amount_adjustment + frequent_claims_adjustment + suspicious_diagnosis_adjustment
           + private_hospital_adjustment = 55 / 100
         \<and> outcome (predict_fraud e db u c n ''Cancer'' ''Private'' a) = Inr (''Fraud'', 60 / 100)"
proof -
  have low: "lower ''Cancer'' = ''cancer''" "lower ''Private'' = ''private''"
    by code_simp+
  have rules: "apply_business_rules p 350000 6 ''Cancer'' ''Private'' = p + 55 / 100" for p
    by (rule apply_business_rules_all)
      (simp_all add: low high_amount_threshold_def frequent_claims_threshold_def
        suspicious_diagnosis_list_def)
  have sum: "high_amount_adjustment + frequent_claims_adjustment
      + suspicious_diagnosis_adjustment + private_hospital_adjustment = 55 / 100"
    by (simp add: high_amount_adjustment_def frequent_claims_adjustment_def
        suspicious_diagnosis_adjustment_def private_hospital_adjustment_def)
  have "outcome (predict_fraud e db u c n ''Cancer'' ''Private'' a) = Inr (''Fraud'', 60 / 100)"
    using assms(5-9)
    by (simp add: predict_fraud_found [OF assms(1-4)] base_prediction_def rules
        cap_probability_def determine_result_def store_prediction_def outcome_def)
  with sum show ?thesis by simp
qed

theorem example_adds_055_witness:
  "outcome (predict_fraud (example_env (5 / 100)) (example_db (PyInt 6) True) 1 ''C001'' ''Asha''
      ''Cancer'' ''Private'' (PyInt 350000)) = Inr (''Fraud'', 60 / 100)"
proof -
  have "py_float (example_env (5 / 100)) (PyInt 350000) = Inr 350000"
    and "py_int (example_env (5 / 100)) (PyInt 45) = Inr 45"
    and "py_int (example_env (5 / 100)) (PyInt 6) = Inr 6"
    and "predict_proba (example_env (5 / 100))
           (preprocess_input (example_env (5 / 100)) 350000 45 ''Cancer'' ''Private'' 6)
         = Inr (5 / 100)"
    and "sqlite_bindable (PyInt 350000)" and "sqlite_bindable (PyInt 45)"
    and "sqlite_bindable (PyInt 6)" and "accepts_writes (example_db (PyInt 6) True)"
    by (simp_all add: py_float_def py_int_def example_env_def sqlite_bindable_def example_db_def)
  from example_adds_055 [OF example_profile this] show ?thesis by simp
qed

text \<open>
  C1, as stated, fails on the fixture: the call with these inputs does not return the
  probability 0.65.
\<close>

theorem example_probability_is_not_065:
  "outcome (predict_fraud (example_env (5 / 100)) (example_db (PyInt 6) True) 1 ''C001'' ''Asha''
      ''Cancer'' ''Private'' (PyInt 350000)) \<noteq> Inr (''Fraud'', 65 / 100)"
  by code_simp

section \<open>Clamping and the threshold\<close>

text \<open>
  C2. Whenever \<open>predict_fraud\<close> returns, the probability it returns lies between 0 and 1,
  whatever the classifier answered and whichever rules fired. In particular, when the
  classifier answers 0.9 and all four rules fire (0.9 + 0.55 = 1.45), the returned
  probability is exactly 1.
\<close>

theorem probability_in_unit_interval:
  assumes "predict_fraud e db u c n d h a = Inr ((r, p), db')"
  shows "0 \<le> p \<and> p \<le> 1 \<and>
    (\<forall>age pc x g k.
       fetch_profile db u c n = Some (age, pc) \<and> py_float e a = Inr x \<and> py_int e age = Inr g
       \<and> py_int e pc = Inr k \<and> predict_proba e (preprocess_input e x g d h k) = Inr (9 / 10)
       \<and> x > high_amount_threshold \<and> k > frequent_claims_threshold
       \<and> lower d \<in> set suspicious_diagnosis_list \<and> lower h = ''private''
       \<longrightarrow> p = 1)"
proof (cases "fetch_profile db u c n")
  case None
  with assms show ?thesis
    by (simp add: predict_fraud_not_found)
next
  case (Some prof)
  obtain age pc where prof: "fetch_profile db u c n = Some (age, pc)"
    using Some by (cases prof) simp
  from assms prof obtain x g k where co: "py_float e a = Inr x" "py_int e age = Inr g"
      "py_int e pc = Inr k"
    and p: "p = cap_probability (apply_business_rules
              (base_prediction e (preprocess_input e x g d h k)) x k d h)"
    by (rule predict_fraud_returns)
  have bounds: "0 \<le> p \<and> p \<le> 1"
    unfolding p by (rule cap_probability_bounds)
  have "p = 1"
    if "predict_proba e (preprocess_input e x g d h k) = Inr (9 / 10)"
      and "x > high_amount_threshold" and "k > frequent_claims_threshold"
      and "lower d \<in> set suspicious_diagnosis_list" and "lower h = ''private''"
    using that(1) by (simp add: p base_prediction_def cap_probability_def
        apply_business_rules_all [OF that(2-5)])
  with bounds prof co show ?thesis by auto
qed

theorem probability_in_unit_interval_witness:
  "predict_fraud (example_env (9 / 10)) (example_db (PyInt 6) True) 1 ''C001'' ''Asha''
      ''Cancer'' ''Private'' (PyInt 350000)
   = Inr ((''Fraud'', 1), (example_db (PyInt 6) True)
        \<lparr>predictions := [example_prediction ''Cancer'' ''Private'' (PyInt 350000) (PyInt 6)
            ''Fraud'' 1]\<rparr>)
   \<and> (0::real) \<le> 1 \<and> (1::real) \<le> 1"
proof -
  have run: "predict_fraud (example_env (9 / 10)) (example_db (PyInt 6) True) 1 ''C001''
      ''Asha'' ''Cancer'' ''Private'' (PyInt 350000)
   = Inr ((''Fraud'', 1), (example_db (PyInt 6) True)
        \<lparr>predictions := [example_prediction ''Cancer'' ''Private'' (PyInt 350000) (PyInt 6)
            ''Fraud'' 1]\<rparr>)"
    by code_simp
  from probability_in_unit_interval [OF run] run show ?thesis by simp
qed

text \<open>
  C3. For a call that found a profile and returned, the verdict is \<open>Fraud\<close> exactly when
  the returned (clamped) probability is strictly greater than 0.35, and \<open>Legitimate\<close>
  exactly when it is at most 0.35; so a probability of exactly 0.35 gives \<open>Legitimate\<close>.
\<close>

theorem verdict_threshold:
  assumes "predict_fraud e db u c n d h a = Inr ((r, p), db')"
    and "fetch_profile db u c n = Some prof"
  shows "(r = ''Fraud'' \<longleftrightarrow> p > 35 / 100) \<and> (r = ''Legitimate'' \<longleftrightarrow> p \<le> 35 / 100)"
proof -
  obtain age pc where "fetch_profile db u c n = Some (age, pc)"
    using assms(2) by (cases prof) simp
  with assms(1) have "r = determine_result p"
    by (rule predict_fraud_returns)
  then show ?thesis
    by (simp add: determine_result_def)
qed

theorem verdict_threshold_witness:
  "predict_fraud (example_env (35 / 100)) (example_db (PyInt 1) True) 1 ''C001'' ''Asha''
      ''Flu'' ''Government'' (PyFloat 5000)
   = Inr ((''Legitimate'', 35 / 100), (example_db (PyInt 1) True)
        \<lparr>predictions := [example_prediction ''Flu'' ''Government'' (PyFloat 5000) (PyInt 1)
            ''Legitimate'' (35 / 100)]\<rparr>)
   \<and> ''Legitimate'' \<noteq> ''Fraud'' \<and> \<not> (35 / 100 :: real) > 35 / 100"
proof -
  have run: "predict_fraud (example_env (35 / 100)) (example_db (PyInt 1) True) 1 ''C001''
      ''Asha'' ''Flu'' ''Government'' (PyFloat 5000)
   = Inr ((''Legitimate'', 35 / 100), (example_db (PyInt 1) True)
        \<lparr>predictions := [example_prediction ''Flu'' ''Government'' (PyFloat 5000) (PyInt 1)
            ''Legitimate'' (35 / 100)]\<rparr>)"
    by code_simp
  from verdict_threshold [OF run example_profile] run show ?thesis by simp
qed

section \<open>A missing profile\<close>

text \<open>
  C4. When no row of \<open>customer_data\<close> has the given user id, customer id and name, the
  call returns the pair \<open>("Error: Customer profile not found", 0.0)\<close>: no verdict is
  computed from a made-up profile, and the database after the call is the database before
  it, so nothing was added to \<open>predictions\<close>.
\<close>

theorem missing_profile:
  assumes "\<forall>row \<in> set (customer_data db).
             \<not> (cd_user_id row = u \<and> cd_customer_id row = c \<and> cd_name row = n)"
  shows "predict_fraud e db u c n d h a = Inr ((''Error: Customer profile not found'', 0), db)"
proof -
  have "filter (\<lambda>r. cd_user_id r = u \<and> cd_customer_id r = c \<and> cd_name r = n)
          (customer_data db) = []"
    using assms by (simp add: filter_empty_conv)
  then have "fetch_profile db u c n = None"
    by (simp add: fetch_profile_eq_None)
  then show ?thesis
    by (rule predict_fraud_not_found)
qed

theorem missing_profile_witness:
  "predict_fraud (example_env (9 / 10)) (example_db (PyInt 6) True) 1 ''C002'' ''Asha''
      ''Cancer'' ''Private'' (PyInt 350000)
   = Inr ((''Error: Customer profile not found'', 0), example_db (PyInt 6) True)"
proof -
  have "\<forall>row \<in> set (customer_data (example_db (PyInt 6) True)).
             \<not> (cd_user_id row = 1 \<and> cd_customer_id row = ''C002'' \<and> cd_name row = ''Asha'')"
    by (simp add: example_db_def example_customer_def)
  then show ?thesis
    by (rule missing_profile)
qed

section \<open>Determinism and the frame of a call\<close>

text \<open>
  C5. The returned pair depends only on the claim fields, the profile that was found, and
  the artifacts (the environment): two calls that find the same profile and are given the
  same diagnosis, hospital type and claim amount return the same verdict and the same
  probability, in whatever states of the store and for whatever keys the profile was found
  under. The call changes nothing but the \<open>predictions\<close> table, to which it
  appends one row; the customer history is untouched, so the same profile is found again
  afterwards.
\<close>

theorem scoring_deterministic:
  assumes "fetch_profile db1 u1 c1 n1 = Some prof"
    and "fetch_profile db2 u2 c2 n2 = Some prof"
    and "predict_fraud e db1 u1 c1 n1 d h a = Inr (ret1, db1')"
    and "predict_fraud e db2 u2 c2 n2 d h a = Inr (ret2, db2')"
  shows "ret1 = ret2
    \<and> customer_data db1' = customer_data db1 \<and> accepts_writes db1' = accepts_writes db1
    \<and> (\<exists>row. predictions db1' = predictions db1 @ [row])
    \<and> fetch_profile db1' u1 c1 n1 = Some prof"
proof -
  obtain age pc where prof: "prof = (age, pc)"
    by (cases prof)
  obtain r1 p1 where ret1: "ret1 = (r1, p1)"
    by (cases ret1)
  obtain r2 p2 where ret2: "ret2 = (r2, p2)"
    by (cases ret2)
  from assms(3) assms(1) obtain x g k where co: "py_float e a = Inr x" "py_int e age = Inr g"
      "py_int e pc = Inr k"
    and p1: "p1 = cap_probability (apply_business_rules
              (base_prediction e (preprocess_input e x g d h k)) x k d h)"
    and r1: "r1 = determine_result p1"
    and db1': "db1' = db1\<lparr>predictions := predictions db1 @
             [\<lparr>pr_user_id = u1, pr_customer_id = c1, pr_name = n1, pr_claim_amount = a,
              pr_age = age, pr_diagnosis = d, pr_hospital_type = h, pr_previous_claims = pc,
              pr_prediction = r1, pr_probability = p1\<rparr>]\<rparr>"
    unfolding prof ret1 by (rule predict_fraud_returns)
  from assms(4) assms(2) obtain x' g' k' where co': "py_float e a = Inr x'"
      "py_int e age = Inr g'" "py_int e pc = Inr k'"
    and p2: "p2 = cap_probability (apply_business_rules
              (base_prediction e (preprocess_input e x' g' d h k')) x' k' d h)"
    and r2: "r2 = determine_result p2"
    unfolding prof ret2 by (rule predict_fraud_returns)
  from co co' have "x' = x" "g' = g" "k' = k"
    by simp_all
  with p1 p2 r1 r2 have same: "ret1 = ret2"
    by (simp add: ret1 ret2)
  from db1' have frame: "customer_data db1' = customer_data db1"
    "accepts_writes db1' = accepts_writes db1"
    by simp_all
  from db1' have grows: "\<exists>row. predictions db1' = predictions db1 @ [row]"
    by simp
  from assms(1) have "fetch_profile db1' u1 c1 n1 = Some prof"
    by (simp only: fetch_profile_frame [OF frame(1)])
  with same frame grows show ?thesis
    by simp
qed

theorem scoring_deterministic_witness:
  "predict_fraud (example_env (5 / 100)) (example_db (PyInt 6) True) 1 ''C001'' ''Asha''
      ''Cancer'' ''Private'' (PyInt 350000)
   = Inr ((''Fraud'', 6 / 10), (example_db (PyInt 6) True)
        \<lparr>predictions := [example_prediction ''Cancer'' ''Private'' (PyInt 350000) (PyInt 6)
            ''Fraud'' (6 / 10)]\<rparr>)
   \<and> predict_fraud (example_env (5 / 100))
       ((example_db (PyInt 6) True)
        \<lparr>predictions := [example_prediction ''Cancer'' ''Private'' (PyInt 350000) (PyInt 6)
            ''Fraud'' (6 / 10)]\<rparr>) 1 ''C001'' ''Asha'' ''Cancer'' ''Private'' (PyInt 350000)
   = Inr ((''Fraud'', 6 / 10), (example_db (PyInt 6) True)
        \<lparr>predictions := [example_prediction ''Cancer'' ''Private'' (PyInt 350000) (PyInt 6)
            ''Fraud'' (6 / 10),
          example_prediction ''Cancer'' ''Private'' (PyInt 350000) (PyInt 6)
            ''Fraud'' (6 / 10)]\<rparr>)
   \<and> customer_data ((example_db (PyInt 6) True)
        \<lparr>predictions := [example_prediction ''Cancer'' ''Private'' (PyInt 350000) (PyInt 6)
            ''Fraud'' (6 / 10)]\<rparr>) = customer_data (example_db (PyInt 6) True)"
proof -
  let ?db = "example_db (PyInt 6) True"
  let ?db' = "?db\<lparr>predictions := [example_prediction ''Cancer'' ''Private'' (PyInt 350000)
     (PyInt 6) ''Fraud'' (6 / 10)]\<rparr>"
  have first: "predict_fraud (example_env (5 / 100)) ?db 1 ''C001'' ''Asha''
      ''Cancer'' ''Private'' (PyInt 350000) = Inr ((''Fraud'', 6 / 10), ?db')"
    by code_simp
  have second: "predict_fraud (example_env (5 / 100)) ?db' 1 ''C001'' ''Asha''
      ''Cancer'' ''Private'' (PyInt 350000)
    = Inr ((''Fraud'', 6 / 10), ?db\<lparr>predictions :=
         [example_prediction ''Cancer'' ''Private'' (PyInt 350000) (PyInt 6) ''Fraud'' (6 / 10),
          example_prediction ''Cancer'' ''Private'' (PyInt 350000) (PyInt 6) ''Fraud''
            (6 / 10)]\<rparr>)"
    by code_simp
  have prof': "fetch_profile ?db' 1 ''C001'' ''Asha'' = Some (PyInt 45, PyInt 6)"
    by (simp add: fetch_profile_def example_db_def example_customer_def)
  from scoring_deterministic [OF example_profile prof' first second] first second
  show ?thesis by simp
qed

section \<open>Failures that are absorbed\<close>

text \<open>
  C6. A diagnosis or hospital type that a fitted encoder has not seen makes
  \<open>transform\<close> raise \<open>ValueError\<close>, which \<open>preprocess_input\<close> absorbs: the feature
  gets the code 0, and the call (profile found, values coerced, store writable) goes on
  to return a verdict, \<open>Fraud\<close> or \<open>Legitimate\<close>.
\<close>

theorem unseen_category_fallback:
  assumes "label_encoders e ''Diagnosis'' = Some enc_d"
    and "label_encoders e ''HospitalType'' = Some enc_h"
    and "enc_d d = None \<or> enc_h h = None"
    and "fetch_profile db u c n = Some (age, pc)"
    and "py_float e a = Inr x" and "py_int e age = Inr g" and "py_int e pc = Inr k"
    and "sqlite_bindable a" and "sqlite_bindable age" and "sqlite_bindable pc"
    and "accepts_writes db"
  shows "(enc_d d = None \<longrightarrow>
            transform e ''Diagnosis'' d = Inl ValueError
            \<and> Diagnosis (preprocess_input e x g d h k) = 0)
    \<and> (enc_h h = None \<longrightarrow>
            transform e ''HospitalType'' h = Inl ValueError
            \<and> HospitalType (preprocess_input e x g d h k) = 0)
    \<and> (\<exists>r p db'. predict_fraud e db u c n d h a = Inr ((r, p), db')
          \<and> (r = ''Fraud'' \<or> r = ''Legitimate''))"
proof -
  have diag: "transform e ''Diagnosis'' d = Inl ValueError
      \<and> Diagnosis (preprocess_input e x g d h k) = 0" if "enc_d d = None"
    using that assms(1) by (simp add: transform_def preprocess_input_def)
  have hosp: "transform e ''HospitalType'' h = Inl ValueError
      \<and> HospitalType (preprocess_input e x g d h k) = 0" if "enc_h h = None"
    using that assms(2) by (simp add: transform_def preprocess_input_def)
  have "\<exists>r p db'. predict_fraud e db u c n d h a = Inr ((r, p), db')
          \<and> (r = ''Fraud'' \<or> r = ''Legitimate'')"
    using predict_fraud_stored [OF assms(4-11) refl refl, of d h] determine_result_cases
    by blast
  with diag hosp show ?thesis
    by blast
qed

theorem unseen_category_fallback_witness:
  "Diagnosis (preprocess_input (example_env (5 / 100)) 5000 45 ''Malaria'' ''Private'' 1) = 0
   \<and> transform (example_env (5 / 100)) ''Diagnosis'' ''Malaria'' = Inl ValueError
   \<and> (\<exists>r p db'. predict_fraud (example_env (5 / 100)) (example_db (PyInt 1) True) 1 ''C001''
          ''Asha'' ''Malaria'' ''Private'' (PyFloat 5000) = Inr ((r, p), db')
        \<and> (r = ''Fraud'' \<or> r = ''Legitimate''))"
proof -
  have enc: "label_encoders (example_env (5 / 100)) ''Diagnosis''
               = Some [''Cancer'' \<mapsto> 0, ''Flu'' \<mapsto> 1]"
    "label_encoders (example_env (5 / 100)) ''HospitalType''
               = Some [''Government'' \<mapsto> 0, ''Private'' \<mapsto> 1]"
    by (simp_all add: example_env_def example_encoders_def)
  have unseen: "[''Cancer'' \<mapsto> 0::nat, ''Flu'' \<mapsto> 1] ''Malaria'' = None"
    by simp
  then have unseen': "[''Cancer'' \<mapsto> 0::nat, ''Flu'' \<mapsto> 1] ''Malaria'' = None
      \<or> [''Government'' \<mapsto> 0::nat, ''Private'' \<mapsto> 1] ''Private'' = None"
    by (rule disjI1)
  have more: "sqlite_bindable (PyFloat 5000)" "sqlite_bindable (PyInt 45)"
    "sqlite_bindable (PyInt 1)" "accepts_writes (example_db (PyInt 1) True)"
    by (simp_all add: sqlite_bindable_def example_db_def)
  from unseen_category_fallback [OF enc unseen' example_profile example_coercions(2)
      example_coercions(3) example_coercions(5) more] unseen
  show ?thesis by simp
qed

text \<open>
  C7. When the classifier's call raises, whatever the exception, \<open>predict_fraud\<close> does
  not raise: it takes 0.0 as the base probability, applies the rules to it, caps the sum,
  decides the verdict and appends the row to \<open>predictions\<close>, and returns that verdict
  and probability.
\<close>

theorem model_failure_defaults_to_zero:
  assumes "fetch_profile db u c n = Some (age, pc)"
    and "py_float e a = Inr x" and "py_int e age = Inr g" and "py_int e pc = Inr k"
    and "sqlite_bindable a" and "sqlite_bindable age" and "sqlite_bindable pc"
    and "accepts_writes db"
    and "predict_proba e (preprocess_input e x g d h k) = Inl err"
  shows "(let p = cap_probability (apply_business_rules 0 x k d h);
              r = determine_result p
          in predict_fraud e db u c n d h a =
             Inr ((r, p), db\<lparr>predictions := predictions db @
               [\<lparr>pr_user_id = u, pr_customer_id = c, pr_name = n, pr_claim_amount = a,
                 pr_age = age, pr_diagnosis = d, pr_hospital_type = h,
                 pr_previous_claims = pc, pr_prediction = r, pr_probability = p\<rparr>]\<rparr>))"
proof -
  have "base_prediction e (preprocess_input e x g d h k) = 0"
    using assms(9) by (simp add: base_prediction_def)
  then show ?thesis
    using predict_fraud_stored [OF assms(1-8) refl refl, of d h] by (simp add: Let_def)
qed

theorem model_failure_defaults_to_zero_witness:
  "predict_fraud failing_model_env (example_db (PyInt 6) True) 1 ''C001'' ''Asha''
      ''Cancer'' ''Private'' (PyInt 350000)
   = Inr ((''Fraud'', 55 / 100), (example_db (PyInt 6) True)
        \<lparr>predictions := [example_prediction ''Cancer'' ''Private'' (PyInt 350000) (PyInt 6)
            ''Fraud'' (55 / 100)]\<rparr>)"
proof -
  have co: "py_float failing_model_env (PyInt 350000) = Inr 350000"
    "py_int failing_model_env (PyInt 45) = Inr 45"
    "py_int failing_model_env (PyInt 6) = Inr 6"
    by (simp_all add: py_float_def py_int_def)
  have more: "sqlite_bindable (PyInt 350000)" "sqlite_bindable (PyInt 45)"
    "sqlite_bindable (PyInt 6)" "accepts_writes (example_db (PyInt 6) True)"
    by (simp_all add: sqlite_bindable_def example_db_def)
  have fails: "predict_proba failing_model_env
      (preprocess_input failing_model_env 350000 45 ''Cancer'' ''Private'' 6) = Inl ValueError"
    by (simp add: failing_model_env_def)
  have p: "cap_probability (apply_business_rules 0 350000 6 ''Cancer'' ''Private'') = 55 / 100"
    by code_simp
  have db: "predictions (example_db (PyInt 6) True) = []"
    by (simp add: example_db_def)
  from model_failure_defaults_to_zero [OF example_profile co more fails]
  show ?thesis
    by (simp add: Let_def p db example_prediction_def determine_result_def)
qed

section \<open>Failures that reach the caller\<close>

text \<open>
  C8, as the code has it. The \<open>INSERT\<close> of \<open>predict_fraud\<close> stands outside any
  \<open>try\<close>: when it fails (the store does not accept the write, or an integer does not
  fit) the call raises that exception, \<open>OperationalError\<close> or \<open>OverflowError\<close>, and
  returns neither verdict nor probability.
\<close>

theorem store_failure_raises:
  assumes "fetch_profile db u c n = Some (age, pc)"
    and "py_float e a = Inr x" and "py_int e age = Inr g" and "py_int e pc = Inr k"
    and "\<not> accepts_writes db \<or> \<not> sqlite_bindable a \<or> \<not> sqlite_bindable age
         \<or> \<not> sqlite_bindable pc"
  shows "\<exists>err. outcome (predict_fraud e db u c n d h a) = Inl err
           \<and> (err = OperationalError \<or> err = OverflowError)"
  using assms(5)
  by (auto simp: predict_fraud_found [OF assms(1-4)] store_prediction_def outcome_def)

theorem store_failure_raises_witness:
  "outcome (predict_fraud (example_env (5 / 100)) (example_db (PyInt 6) False) 1 ''C001''
      ''Asha'' ''Cancer'' ''Private'' (PyInt 350000)) = Inl OperationalError"
proof -
  have closed: "\<not> accepts_writes (example_db (PyInt 6) False)
      \<or> \<not> sqlite_bindable (PyInt 350000) \<or> \<not> sqlite_bindable (PyInt 45)
      \<or> \<not> sqlite_bindable (PyInt 6)"
    by (simp add: example_db_def)
  have "outcome (predict_fraud (example_env (5 / 100)) (example_db (PyInt 6) False) 1
      ''C001'' ''Asha'' ''Cancer'' ''Private'' (PyInt 350000)) \<noteq> Inl OverflowError"
    by code_simp
  with store_failure_raises [OF example_profile example_coercions(1) example_coercions(3)
      example_coercions(4) closed, where d = "''Cancer''" and h = "''Private''"]
  show ?thesis by auto
qed

text \<open>
  C8, as stated, fails on the fixture with a store that refuses writes: the append of the
  computed row raises \<open>OperationalError\<close>, and so does the call, instead of returning
  the verdict.
\<close>

theorem store_failure_loses_verdict:
  "store_prediction (example_db (PyInt 6) False)
      (example_prediction ''Cancer'' ''Private'' (PyInt 350000) (PyInt 6) ''Fraud'' (6 / 10))
     = Inl OperationalError
   \<and> outcome (predict_fraud (example_env (5 / 100)) (example_db (PyInt 6) False) 1 ''C001''
        ''Asha'' ''Cancer'' ''Private'' (PyInt 350000)) = Inl OperationalError"
  by code_simp



section \<open>The rules only raise the score\<close>

text \<open>
  C10. Each of the four adjustments is non-negative, so for every call that found a
  profile and returned, the returned probability is at least the smaller of 1 and the base
  probability (the classifier's answer, or 0.0 when its call raised): the rules never
  lower the score, whichever of them fire.
\<close>

theorem rules_never_lower:
  assumes "predict_fraud e db u c n d h a = Inr ((r, p), db')"
    and "fetch_profile db u c n = Some (age, pc)"
    and "py_float e a = Inr x" and "py_int e age = Inr g" and "py_int e pc = Inr k"
  shows "0 \<le> high_amount_adjustment \<and> 0 \<le> frequent_claims_adjustment
    \<and> 0 \<le> suspicious_diagnosis_adjustment \<and> 0 \<le> private_hospital_adjustment
    \<and> min 1 (base_prediction e (preprocess_input e x g d h k)) \<le> p"
proof -
  from assms(1,2) obtain x' g' k' where co: "py_float e a = Inr x'" "py_int e age = Inr g'"
      "py_int e pc = Inr k'"
    and p: "p = cap_probability (apply_business_rules
              (base_prediction e (preprocess_input e x' g' d h k')) x' k' d h)"
    by (rule predict_fraud_returns)
  from co assms(3-5) have same: "x' = x" "g' = g" "k' = k"
    by simp_all
  have "min 1 b \<le> cap_probability (apply_business_rules b x k d h)" for b
    using apply_business_rules_ge [of b x k d h] by (simp add: cap_probability_def)
  then have "min 1 (base_prediction e (preprocess_input e x g d h k)) \<le> p"
    by (simp add: p same)
  then show ?thesis
    by (simp add: high_amount_adjustment_def frequent_claims_adjustment_def
        suspicious_diagnosis_adjustment_def private_hospital_adjustment_def)
qed

theorem rules_never_lower_witness:
  "min 1 (base_prediction (example_env (5 / 100))
       (preprocess_input (example_env (5 / 100)) 350000 45 ''Cancer'' ''Private'' 6))
     \<le> (6 / 10 :: real)
   \<and> base_prediction (example_env (5 / 100))
       (preprocess_input (example_env (5 / 100)) 350000 45 ''Cancer'' ''Private'' 6) = 5 / 100"
proof -
  have run: "predict_fraud (example_env (5 / 100)) (example_db (PyInt 6) True) 1 ''C001''
      ''Asha'' ''Cancer'' ''Private'' (PyInt 350000)
   = Inr ((''Fraud'', 6 / 10), (example_db (PyInt 6) True)
        \<lparr>predictions := [example_prediction ''Cancer'' ''Private'' (PyInt 350000) (PyInt 6)
            ''Fraud'' (6 / 10)]\<rparr>)"
    by code_simp
  have base: "base_prediction (example_env (5 / 100))
       (preprocess_input (example_env (5 / 100)) 350000 45 ''Cancer'' ''Private'' 6) = 5 / 100"
    by (simp add: base_prediction_def example_env_def)
  from rules_never_lower [OF run example_profile example_coercions(1) example_coercions(3)
      example_coercions(4)] base
  show ?thesis by simp
qed

end
